theory Spec2Isabelle
  imports Complex_Main
begin

section \<open>JavaScript values used by the handler\<close>

text \<open>
  Strings are lists of 8-bit code units. The case mapping and the whitespace class are
  those of JavaScript on ASCII (the recogniser is called with the region hint \<open>gb\<close>);
  code units from 128 on are left alone by \<open>toUpperCase\<close> and are no whitespace.
  An optional field of a document is a \<open>string option\<close>: \<open>None\<close> is \<open>undefined\<close>.
\<close>

definition toUpperCase_char :: "char \<Rightarrow> char" where
  "toUpperCase_char c =
     (let n = (of_char c :: nat) in if 97 \<le> n \<and> n \<le> 122 then char_of (n - 32) else c)"

definition toUpperCase :: "string \<Rightarrow> string" where
  "toUpperCase s = map toUpperCase_char s"

text \<open>The regular expression class \<open>\s\<close>: tab, line feed, vertical tab, form feed,
  carriage return, space.\<close>

definition is_whitespace :: "char \<Rightarrow> bool" where
  "is_whitespace c = ((of_char c :: nat) \<in> set [9, 10, 11, 12, 13, 32])"

text \<open>\<open>s.replace(/\s/g, "")\<close>: every match is one whitespace unit.\<close>

fun replace_ws_each :: "string \<Rightarrow> string" where
  "replace_ws_each [] = []"
| "replace_ws_each (c # cs) =
     (if is_whitespace c then replace_ws_each cs else c # replace_ws_each cs)"

text \<open>\<open>s.replace(/\s+/g, "")\<close>: every match is a maximal run of whitespace.\<close>

function replace_ws_runs :: "string \<Rightarrow> string" where
  "replace_ws_runs [] = []"
| "replace_ws_runs (c # cs) =
     (if is_whitespace c then replace_ws_runs (dropWhile is_whitespace cs)
      else c # replace_ws_runs cs)"
  by pat_completeness auto
termination
  by (relation "measure length") (auto simp add: length_dropWhile_le le_imp_less_Suc)

text \<open>\<open>x || d\<close> on an optional string: \<open>undefined\<close> and the empty string are falsy.\<close>

definition falsy :: "string option \<Rightarrow> bool" where
  "falsy x = (case x of None \<Rightarrow> True | Some s \<Rightarrow> s = [])"

definition js_or :: "string option \<Rightarrow> string \<Rightarrow> string" where
  "js_or x d = (case x of None \<Rightarrow> d | Some s \<Rightarrow> if s = [] then d else s)"

definition startsWith :: "string \<Rightarrow> string \<Rightarrow> bool" where
  "startsWith s p = (take (length p) s = p)"

text \<open>\<open>s.indexOf(c)\<close>: the first position of \<open>c\<close>, or \<open>-1\<close>.\<close>

fun indexOf :: "string \<Rightarrow> char \<Rightarrow> int" where
  "indexOf [] c = -1"
| "indexOf (x # xs) c =
     (if x = c then 0 else (let i = indexOf xs c in if i < 0 then -1 else i + 1))"

text \<open>\<open>s.substring(a, b)\<close> and \<open>s.substring(a)\<close>: both bounds are clamped to
  \<open>0 .. length\<close>, and swapped when the first is the larger.\<close>

definition clamp_index :: "string \<Rightarrow> int \<Rightarrow> nat" where
  "clamp_index s i = (if i < 0 then 0 else min (nat i) (length s))"

definition substring :: "string \<Rightarrow> int \<Rightarrow> int \<Rightarrow> string" where
  "substring s a b =
     (let x = clamp_index s a; y = clamp_index s b
      in take (max x y - min x y) (drop (min x y) s))"

definition substring_from :: "string \<Rightarrow> int \<Rightarrow> string" where
  "substring_from s a = drop (clamp_index s a) s"

text \<open>\<open>s.replace(pat, rep)\<close> with a string pattern: the first occurrence only.\<close>

fun replace_first :: "string \<Rightarrow> string \<Rightarrow> string \<Rightarrow> string" where
  "replace_first pat rep [] = (if pat = [] then rep else [])"
| "replace_first pat rep (c # cs) =
     (if startsWith (c # cs) pat then rep @ drop (length pat) (c # cs)
      else c # replace_first pat rep cs)"

text \<open>\<open>encodeURIComponent\<close>: every unit but the letters, the digits and
  \<open>- _ . ! ~ * ' ( )\<close> becomes \<open>%XX\<close>.\<close>

definition uri_unreserved :: "char \<Rightarrow> bool" where
  "uri_unreserved c =
     (let n = (of_char c :: nat)
      in (65 \<le> n \<and> n \<le> 90) \<or> (97 \<le> n \<and> n \<le> 122) \<or> (48 \<le> n \<and> n \<le> 57)
         \<or> n \<in> set [45, 95, 46, 33, 126, 42, 39, 40, 41])"

definition hex_digit :: "nat \<Rightarrow> char" where
  "hex_digit n = ''0123456789ABCDEF'' ! (n mod 16)"

definition encode_unit :: "char \<Rightarrow> string" where
  "encode_unit c =
     (if uri_unreserved c then [c]
      else [CHR ''%'', hex_digit ((of_char c :: nat) div 16), hex_digit (of_char c)])"

definition encodeURIComponent :: "string \<Rightarrow> string" where
  "encodeURIComponent s = concat (map encode_unit s)"

section \<open>Plate normalisation\<close>

text \<open>The client's \<open>normalizePlate(p)\<close>:
  \<open>(p || "").toUpperCase().replace(/\s+/g, "")\<close>.\<close>

definition normalizePlate :: "string option \<Rightarrow> string" where
  "normalizePlate p = replace_ws_runs (toUpperCase (js_or p []))"

text \<open>The handler's own normalisation of the first candidate:
  \<open>results[0].plate.toUpperCase().replace(/\s/g, "")\<close>.\<close>

definition detectedPlate_of :: "string \<Rightarrow> string" where
  "detectedPlate_of p = replace_ws_each (toUpperCase p)"

section \<open>Documents, messages and errors\<close>

text \<open>The payload of a \<open>chargerUsage\<close> document, as far as the handler reads it.\<close>

record usage_report =
  imageUrl :: "string option"
  chargerId :: "string option"
  location :: "string option"
  reportedBy :: "string option"

text \<open>One candidate of the recogniser's \<open>results\<close>, and one document of \<open>userPlates\<close>.\<close>

record plate_result =
  plate :: string
  score :: real

record owner_record =
  owner_plate :: string
  userId :: string

text \<open>A thrown error: \<open>error.message\<close>, and \<open>error.response\<close> with its \<open>status\<close>
  and \<open>data\<close>, which only an HTTP error carries.\<close>

record http_response =
  response_status :: nat
  response_data :: "string option"

record js_error =
  message :: string
  response :: "http_response option"

text \<open>The message handed to \<open>admin.messaging().send\<close>.\<close>

record fcm_message =
  notification_title :: string
  notification_body :: string
  data_type :: string
  data_plate :: string
  data_ownerId :: string
  data_chargerId :: string
  data_location :: string
  data_confidence :: string
  data_click_action :: string
  topic :: string
  android_priority :: string
  android_sound :: string
  android_channelId :: string
  apns_sound :: string
  apns_badge :: nat

text \<open>The documents added to \<open>alerts\<close>, \<open>unregisteredPlates\<close> and
  \<open>failedDetections\<close>. The server timestamp each of them carries is assigned by the
  store and is left out.\<close>

record alert_record =
  recipientId :: string
  recipientPlate :: string
  alert_plate :: string
  alert_location :: string
  alert_chargerId :: string
  alert_reportedBy :: string
  alert_imageUrl :: string
  publicImageUrl :: string
  alert_confidence :: real
  status :: string
  notificationMethod :: string
  alert_topic :: string

record unregistered_record =
  unreg_plate :: string
  unreg_imageUrl :: string
  unreg_location :: "string option"
  unreg_chargerId :: "string option"
  unreg_reportedBy :: "string option"
  unreg_confidence :: real

record failed_record =
  failed_imageUrl :: string
  failed_chargerId :: "string option"
  failed_location :: "string option"
  error :: string
  errorDetails :: "string option"

section \<open>The collaborators\<close>

text \<open>
  Everything the handler awaits is a call to a collaborator: the object store, the
  recogniser (through \<open>axios.post\<close>), the three audit collections, the registry
  \<open>userPlates\<close> and the push service. A run makes each call at most once, so the
  collaborators of one run are the answers they give: \<open>Inl e\<close> (or \<open>Some e\<close> where
  nothing is returned) when the call throws \<open>e\<close>. The recogniser answers with
  \<open>response.data?.results\<close>, \<open>None\<close> when it is missing. The registry is the list of
  its documents in the order of the store; \<open>userPlates_get_error\<close> is the error its
  query throws, if it throws. \<open>number_toString\<close> is the runtime's rendering of a number.
  The three \<open>_add\<close> answers are the store's, for a document it is sent;
  \<open>undefined_field_error f\<close> is the error the Firestore client throws for a document
  whose field \<open>f\<close> is undefined (see \<open>add_unregisteredPlate\<close> below).
\<close>

record env =
  PLATE_RECOGNIZER_KEY :: "string option"
  file_exists :: "string \<Rightarrow> string \<Rightarrow> js_error + bool"
  file_makePublic :: "string \<Rightarrow> string \<Rightarrow> js_error option"
  axios_post :: "string \<Rightarrow> string \<Rightarrow> js_error + plate_result list option"
  userPlates :: "owner_record list"
  userPlates_get_error :: "js_error option"
  messaging_send :: "fcm_message \<Rightarrow> js_error option"
  unregisteredPlates_add :: "unregistered_record \<Rightarrow> js_error option"
  alerts_add :: "alert_record \<Rightarrow> js_error option"
  failedDetections_add :: "failed_record \<Rightarrow> js_error option"
  undefined_field_error :: "string \<Rightarrow> js_error"
  number_toString :: "real \<Rightarrow> string"

text \<open>The calls of a run, in the order they are made, each with whether it returned
  (\<open>True\<close>) or threw (\<open>False\<close>).\<close>

datatype call =
    FileExists string string
  | MakePublic string string
  | PlateReader string string
  | UserPlatesQuery string
  | MessagingSend fcm_message
  | AddUnregistered unregistered_record
  | AddAlert alert_record
  | AddFailed failed_record

type_synonym trace = "(call \<times> bool) list"

section \<open>Adding a document\<close>

text \<open>
  \<open>db\<close> is \<open>admin.firestore()\<close> with its default settings, under which the client
  refuses a document that has an undefined field: \<open>add\<close> throws, for the first such
  field in the order of the object literal, and nothing reaches the store. The handler
  gives \<open>unregisteredPlates.add\<close> the report's \<open>location\<close>, \<open>chargerId\<close> and
  \<open>reportedBy\<close> as they are, and \<open>failedDetections.add\<close> its \<open>chargerId\<close> and
  \<open>location\<close>; every field of an \<open>alerts\<close> document is defined.
\<close>

definition add_unregisteredPlate :: "env \<Rightarrow> unregistered_record \<Rightarrow> js_error option" where
  "add_unregisteredPlate env doc =
     (if unreg_location doc = None then Some (undefined_field_error env ''location'')
      else if unreg_chargerId doc = None then Some (undefined_field_error env ''chargerId'')
      else if unreg_reportedBy doc = None then Some (undefined_field_error env ''reportedBy'')
      else unregisteredPlates_add env doc)"

definition add_failedDetection :: "env \<Rightarrow> failed_record \<Rightarrow> js_error option" where
  "add_failedDetection env doc =
     (if failed_chargerId doc = None then Some (undefined_field_error env ''chargerId'')
      else if failed_location doc = None then Some (undefined_field_error env ''location'')
      else failedDetections_add env doc)"

section \<open>Address resolution: \<open>getPublicUrl\<close>\<close>

definition getPublicUrl :: "env \<Rightarrow> string \<Rightarrow> (js_error + string) \<times> trace" where
  "getPublicUrl env gsUrl =
     (if \<not> startsWith gsUrl ''gs://'' then (Inr gsUrl, [])
      else
        let gsPath = replace_first ''gs://'' [] gsUrl;
            firstSlash = indexOf gsPath CHR ''/'';
            bucketName = substring gsPath 0 firstSlash;
            filePath = substring_from gsPath (firstSlash + 1)
        in case file_exists env bucketName filePath of
             Inl e \<Rightarrow> (Inl e, [(FileExists bucketName filePath, False)])
           | Inr exists \<Rightarrow>
               if \<not> exists
               then (Inl \<lparr>message = ''File does not exist: '' @ filePath, response = None\<rparr>,
                     [(FileExists bucketName filePath, True)])
               else (case file_makePublic env bucketName filePath of
                       Some e \<Rightarrow>
                         (Inl e, [(FileExists bucketName filePath, True),
                                  (MakePublic bucketName filePath, False)])
                     | None \<Rightarrow>
                         (Inr (''https://storage.googleapis.com/'' @ bucketName @ ''/''
                                 @ encodeURIComponent filePath),
                          [(FileExists bucketName filePath, True),
                           (MakePublic bucketName filePath, True)])))"

section \<open>The trigger: \<open>alertBlockedCharger\<close>\<close>

text \<open>
  A block of the handler returns what it threw (\<open>None\<close> when it ran to its end or to
  a \<open>return\<close>) and the calls it made. The blocks follow the source from the inside
  out; \<open>u\<close> is \<open>data.imageUrl\<close> and \<open>url\<close> the local \<open>imageUrl\<close>.
\<close>

definition results_of :: "plate_result list option \<Rightarrow> plate_result list" where
  "results_of r = (case r of None \<Rightarrow> [] | Some rs \<Rightarrow> rs)"

definition build_message :: "env \<Rightarrow> usage_report \<Rightarrow> string \<Rightarrow> real \<Rightarrow> string \<Rightarrow> fcm_message" where
  "build_message env d detectedPlate confidence ownerId =
     \<lparr>notification_title = ''Charger Occupied'',
      notification_body =
        ''Charger '' @ js_or (chargerId d) ''Unknown'' @ '' is now used by '' @ detectedPlate,
      data_type = ''charger_alert'',
      data_plate = detectedPlate,
      data_ownerId = ownerId,
      data_chargerId = js_or (chargerId d) ''unknown'',
      data_location = js_or (location d) [],
      data_confidence = number_toString env confidence,
      data_click_action = ''FLUTTER_NOTIFICATION_CLICK'',
      topic = ''charger_alerts'',
      android_priority = ''high'',
      android_sound = ''default'',
      android_channelId = ''charger_alerts'',
      apns_sound = ''default'',
      apns_badge = 1\<rparr>"

definition build_alert ::
  "usage_report \<Rightarrow> string \<Rightarrow> string \<Rightarrow> string \<Rightarrow> real \<Rightarrow> string \<Rightarrow> alert_record" where
  "build_alert d u url detectedPlate confidence ownerId =
     \<lparr>recipientId = ownerId,
      recipientPlate = detectedPlate,
      alert_plate = detectedPlate,
      alert_location = js_or (location d) ''Unknown'',
      alert_chargerId = js_or (chargerId d) ''unknown'',
      alert_reportedBy = js_or (reportedBy d) ''anonymous'',
      alert_imageUrl = u,
      publicImageUrl = url,
      alert_confidence = confidence,
      status = ''sent'',
      notificationMethod = ''topic'',
      alert_topic = ''charger_alerts''\<rparr>"

definition build_unregistered ::
  "usage_report \<Rightarrow> string \<Rightarrow> string \<Rightarrow> real \<Rightarrow> unregistered_record" where
  "build_unregistered d u detectedPlate confidence =
     \<lparr>unreg_plate = detectedPlate,
      unreg_imageUrl = u,
      unreg_location = location d,
      unreg_chargerId = chargerId d,
      unreg_reportedBy = reportedBy d,
      unreg_confidence = confidence\<rparr>"

definition build_failed :: "usage_report \<Rightarrow> string \<Rightarrow> js_error \<Rightarrow> failed_record" where
  "build_failed d u e =
     \<lparr>failed_imageUrl = u,
      failed_chargerId = chargerId d,
      failed_location = location d,
      error = message e,
      errorDetails =
        (case response e of
           None \<Rightarrow> None
         | Some r \<Rightarrow> if falsy (response_data r) then None else response_data r)\<rparr>"

text \<open>Steps 3 and 4: the topic send, then the \<open>alerts\<close> document.\<close>

definition send_and_log ::
  "env \<Rightarrow> usage_report \<Rightarrow> string \<Rightarrow> string \<Rightarrow> string \<Rightarrow> real \<Rightarrow> string
     \<Rightarrow> js_error option \<times> trace" where
  "send_and_log env d u url detectedPlate confidence ownerId =
     (let msg = build_message env d detectedPlate confidence ownerId
      in case messaging_send env msg of
           Some e \<Rightarrow> (Some e, [(MessagingSend msg, False)])
         | None \<Rightarrow>
             let rec = build_alert d u url detectedPlate confidence ownerId
             in (alerts_add env rec,
                 [(MessagingSend msg, True), (AddAlert rec, alerts_add env rec = None)]))"

text \<open>Step 2: \<open>userPlates.where("plate", "==", detectedPlate).limit(1).get()\<close>, and
  the branch on \<open>plateQuery.empty\<close>.\<close>

definition lookup_owner ::
  "env \<Rightarrow> usage_report \<Rightarrow> string \<Rightarrow> string \<Rightarrow> string \<Rightarrow> real \<Rightarrow> js_error option \<times> trace" where
  "lookup_owner env d u url detectedPlate confidence =
     (case userPlates_get_error env of
        Some e \<Rightarrow> (Some e, [(UserPlatesQuery detectedPlate, False)])
      | None \<Rightarrow>
          (case take 1 (filter (\<lambda>doc. owner_plate doc = detectedPlate) (userPlates env)) of
             [] \<Rightarrow>
               let rec = build_unregistered d u detectedPlate confidence
               in (add_unregisteredPlate env rec,
                   [(UserPlatesQuery detectedPlate, True),
                    (AddUnregistered rec, add_unregisteredPlate env rec = None)])
           | ownerData # _ \<Rightarrow>
               let (r, t) = send_and_log env d u url detectedPlate confidence (userId ownerData)
               in (r, (UserPlatesQuery detectedPlate, True) # t)))"

text \<open>Step 1: the recogniser, and the \<open>return\<close> on an empty result list. The
  request's region hint and its timeout of 30000 ms are constants of the call; a timeout
  is one of the errors \<open>axios.post\<close> throws.\<close>

definition detect_plate ::
  "env \<Rightarrow> usage_report \<Rightarrow> string \<Rightarrow> string \<Rightarrow> string \<Rightarrow> js_error option \<times> trace" where
  "detect_plate env d u key url =
     (case axios_post env url key of
        Inl e \<Rightarrow> (Some e, [(PlateReader url key, False)])
      | Inr response_results \<Rightarrow>
          (case results_of response_results of
             [] \<Rightarrow> (None, [(PlateReader url key, True)])
           | r0 # _ \<Rightarrow>
               let (r, t) = lookup_owner env d u url (detectedPlate_of (plate r0)) (score r0)
               in (r, (PlateReader url key, True) # t)))"

text \<open>The first step of the \<open>try\<close> block: the address is resolved when it starts
  with \<open>gs://\<close>.\<close>

definition resolveImageUrl :: "env \<Rightarrow> string \<Rightarrow> (js_error + string) \<times> trace" where
  "resolveImageUrl env u = (if startsWith u ''gs://'' then getPublicUrl env u else (Inr u, []))"

text \<open>The \<open>try\<close> block.\<close>

definition try_block ::
  "env \<Rightarrow> usage_report \<Rightarrow> string \<Rightarrow> string \<Rightarrow> js_error option \<times> trace" where
  "try_block env d u key =
     (case resolveImageUrl env u of
        (Inl e, t1) \<Rightarrow> (Some e, t1)
      | (Inr url, t1) \<Rightarrow>
          let (r, t) = detect_plate env d u key url in (r, t1 @ t))"

text \<open>The \<open>catch\<close> block: one document for \<open>failedDetections\<close>; what its \<open>add\<close>
  throws leaves the handler.\<close>

definition catch_block :: "env \<Rightarrow> usage_report \<Rightarrow> string \<Rightarrow> js_error \<Rightarrow> js_error option \<times> trace" where
  "catch_block env d u e =
     (let rec = build_failed d u e
      in (add_failedDetection env rec, [(AddFailed rec, add_failedDetection env rec = None)]))"

text \<open>The handler. The event's payload is \<open>None\<close> when \<open>event.data?.data()\<close> is
  undefined. The three cases before the \<open>try\<close> are the guard
  \<open>!data || !data.imageUrl || !plateApiKey\<close>. The result is the error the handler
  rejects with, if any, and the calls of the run.\<close>

definition alertBlockedCharger :: "env \<Rightarrow> usage_report option \<Rightarrow> js_error option \<times> trace" where
  "alertBlockedCharger env event =
     (case event of
        None \<Rightarrow> (None, [])
      | Some d \<Rightarrow>
          (case imageUrl d of
             None \<Rightarrow> (None, [])
           | Some u \<Rightarrow>
               if u = [] then (None, [])
               else (case PLATE_RECOGNIZER_KEY env of
                       None \<Rightarrow> (None, [])
                     | Some key \<Rightarrow>
                         if key = [] then (None, [])
                         else (case try_block env d u key of
                                 (None, t) \<Rightarrow> (None, t)
                               | (Some e, t) \<Rightarrow>
                                   let (r, t') = catch_block env d u e in (r, t @ t')))))"

section \<open>What a run did\<close>

text \<open>The documents a run wrote (the \<open>add\<close> returned), the messages it tried to
  send, and the plates it queried the registry for.\<close>

fun alerts_written :: "trace \<Rightarrow> alert_record list" where
  "alerts_written [] = []"
| "alerts_written ((AddAlert r, True) # t) = r # alerts_written t"
| "alerts_written (_ # t) = alerts_written t"

fun unregistered_written :: "trace \<Rightarrow> unregistered_record list" where
  "unregistered_written [] = []"
| "unregistered_written ((AddUnregistered r, True) # t) = r # unregistered_written t"
| "unregistered_written (_ # t) = unregistered_written t"

fun failed_written :: "trace \<Rightarrow> failed_record list" where
  "failed_written [] = []"
| "failed_written ((AddFailed r, True) # t) = r # failed_written t"
| "failed_written (_ # t) = failed_written t"

fun topic_sends :: "trace \<Rightarrow> (fcm_message \<times> bool) list" where
  "topic_sends [] = []"
| "topic_sends ((MessagingSend m, ok) # t) = (m, ok) # topic_sends t"
| "topic_sends (_ # t) = topic_sends t"

fun registry_reads :: "trace \<Rightarrow> string list" where
  "registry_reads [] = []"
| "registry_reads ((UserPlatesQuery p, ok) # t) = p # registry_reads t"
| "registry_reads (_ # t) = registry_reads t"

text \<open>The order of the topic send and the \<open>alerts\<close> document in a trace, as a
  check that runs along it: \<open>sent\<close> holds the sends met so far; an \<open>alerts.add\<close> is
  in order when exactly one send came before it and returned, the document has status
  \<open>sent\<close>, and no send follows.\<close>

fun alert_follows_send :: "(fcm_message \<times> bool) list \<Rightarrow> trace \<Rightarrow> bool" where
  "alert_follows_send sent [] = True"
| "alert_follows_send sent ((MessagingSend m, ok) # t) = alert_follows_send (sent @ [(m, ok)]) t"
| "alert_follows_send sent ((AddAlert r, ok) # t) =
     (map snd sent = [True] \<and> status r = ''sent'' \<and> topic_sends t = []
      \<and> alert_follows_send sent t)"
| "alert_follows_send sent (_ # t) = alert_follows_send sent t"

section \<open>The scenario of the specification\<close>

text \<open>
  The report \<open>{ imageUrl: "gs://bucket/x.jpg", chargerId: "C1" }\<close>, and collaborators
  that all answer: the object exists and can be made public, the recogniser returns the
  one candidate \<open>{ plate: "ab12 cde", score: 0.91 }\<close>, the registry holds
  \<open>{ plate: "AB12CDE", userId: "U1" }\<close>, and the push service and the stores accept
  what they are sent.
\<close>

definition scenario_report :: usage_report where
  "scenario_report =
     \<lparr>imageUrl = Some ''gs://bucket/x.jpg'', chargerId = Some ''C1'',
      location = None, reportedBy = None\<rparr>"

definition scenario_env :: env where
  "scenario_env =
     \<lparr>PLATE_RECOGNIZER_KEY = Some ''key'',
      file_exists = (\<lambda>bucket path. Inr True),
      file_makePublic = (\<lambda>bucket path. None),
      axios_post = (\<lambda>url key. Inr (Some [\<lparr>plate = ''ab12 cde'', score = 91 / 100\<rparr>])),
      userPlates = [\<lparr>owner_plate = ''AB12CDE'', userId = ''U1''\<rparr>],
      userPlates_get_error = None,
      messaging_send = (\<lambda>msg. None),
      unregisteredPlates_add = (\<lambda>doc. None),
      alerts_add = (\<lambda>doc. None),
      failedDetections_add = (\<lambda>doc. None),
      undefined_field_error =
        (\<lambda>f. \<lparr>message = ''Cannot use undefined as a Firestore value, found in field '' @ f,
              response = None\<rparr>),
      number_toString = (\<lambda>x. if x = 91 / 100 then ''0.91'' else ''NaN'')\<rparr>"

text \<open>Variations of the scenario: the push service rejects the message; the registry
  is empty; the recogniser times out; the object is not in the store; the recogniser
  finds no plate. A report that
  carries every field, and one that carries the image address only, already public.\<close>

definition send_error :: js_error where
  "send_error = \<lparr>message = ''messaging/internal-error'', response = None\<rparr>"

definition timeout_error :: js_error where
  "timeout_error = \<lparr>message = ''timeout of 30000ms exceeded'', response = None\<rparr>"

definition send_fails_env :: env where
  "send_fails_env = scenario_env\<lparr>messaging_send := (\<lambda>msg. Some send_error)\<rparr>"

definition empty_registry_env :: env where
  "empty_registry_env = scenario_env\<lparr>userPlates := []\<rparr>"

definition timeout_env :: env where
  "timeout_env = scenario_env\<lparr>axios_post := (\<lambda>url key. Inl timeout_error)\<rparr>"

definition missing_file_env :: env where
  "missing_file_env = scenario_env\<lparr>file_exists := (\<lambda>bucket path. Inr False)\<rparr>"

definition no_plate_env :: env where
  "no_plate_env = scenario_env\<lparr>axios_post := (\<lambda>url key. Inr (Some []))\<rparr>"

definition full_report :: usage_report where
  "full_report =
     \<lparr>imageUrl = Some ''gs://bucket/x.jpg'', chargerId = Some ''C1'',
      location = Some ''Bay 4'', reportedBy = Some ''U2''\<rparr>"

definition bare_report :: usage_report where
  "bare_report =
     \<lparr>imageUrl = Some ''https://example.com/x.jpg'', chargerId = None,
      location = None, reportedBy = None\<rparr>"

section \<open>Lemmas on normalisation\<close>

lemma replace_ws_each_filter: "replace_ws_each s = filter (\<lambda>c. \<not> is_whitespace c) s"
  by (induction s) simp_all

lemma replace_ws_runs_filter: "replace_ws_runs s = filter (\<lambda>c. \<not> is_whitespace c) s"
proof (induction s rule: replace_ws_runs.induct)
  case 1
  show ?case by simp
next
  case (2 c cs)
  have drop_ws: "filter (\<lambda>c. \<not> is_whitespace c) (dropWhile is_whitespace cs)
      = filter (\<lambda>c. \<not> is_whitespace c) cs"
    by (induction cs) simp_all
  show ?case
  proof (cases "is_whitespace c")
    case True
    with 2 drop_ws show ?thesis by simp
  next
    case False
    with 2 show ?thesis by simp
  qed
qed

lemma of_char_upper:
  assumes "97 \<le> (of_char c :: nat)" "(of_char c :: nat) \<le> 122"
  shows "(of_char (toUpperCase_char c) :: nat) = of_char c - 32"
proof -
  have "(of_char c - 32 :: nat) mod 256 = of_char c - 32"
    using assms by simp
  with assms show ?thesis
    by (simp add: toUpperCase_char_def)
qed

lemma toUpperCase_char_idem: "toUpperCase_char (toUpperCase_char c) = toUpperCase_char c"
proof (cases "97 \<le> (of_char c :: nat) \<and> (of_char c :: nat) \<le> 122")
  case True
  then have "(of_char (toUpperCase_char c) :: nat) = of_char c - 32"
    by (simp add: of_char_upper)
  with True have "\<not> (97 \<le> (of_char (toUpperCase_char c) :: nat))"
    by arith
  then show ?thesis
    unfolding toUpperCase_char_def [of "toUpperCase_char c"] by (simp add: Let_def)
next
  case False
  then have "toUpperCase_char c = c"
    by (auto simp add: toUpperCase_char_def)
  then show ?thesis by simp
qed

lemma is_whitespace_toUpperCase_char:
  "is_whitespace (toUpperCase_char c) = is_whitespace c"
proof (cases "97 \<le> (of_char c :: nat) \<and> (of_char c :: nat) \<le> 122")
  case True
  then have "(of_char (toUpperCase_char c) :: nat) = of_char c - 32"
    by (simp add: of_char_upper)
  with True show ?thesis
    by (auto simp add: is_whitespace_def)
next
  case False
  then have "toUpperCase_char c = c"
    by (auto simp add: toUpperCase_char_def)
  then show ?thesis by simp
qed

lemma toUpperCase_filter_fixed:
  "toUpperCase (filter P (toUpperCase s)) = filter P (toUpperCase s)"
  by (induction s) (simp_all add: toUpperCase_def toUpperCase_char_idem)

lemma detectedPlate_of_idem: "detectedPlate_of (detectedPlate_of p) = detectedPlate_of p"
  by (simp add: detectedPlate_of_def replace_ws_each_filter toUpperCase_filter_fixed)

lemma normalizePlate_filter:
  "normalizePlate p = filter (\<lambda>c. \<not> is_whitespace c) (toUpperCase (js_or p []))"
  by (simp add: normalizePlate_def replace_ws_runs_filter)

lemma normalizePlate_detectedPlate_of: "normalizePlate (Some p) = detectedPlate_of p"
  by (simp add: normalizePlate_filter detectedPlate_of_def replace_ws_each_filter js_or_def
      toUpperCase_def)

lemma js_or_empty: "js_or p [] = (case p of None \<Rightarrow> [] | Some s \<Rightarrow> s)"
  by (simp add: js_or_def split: option.splits)

section \<open>Lemmas on traces and on the blocks of the handler\<close>

lemma alerts_written_append: "alerts_written (a @ b) = alerts_written a @ alerts_written b"
  by (induction a rule: alerts_written.induct) simp_all

lemma unregistered_written_append:
  "unregistered_written (a @ b) = unregistered_written a @ unregistered_written b"
  by (induction a rule: unregistered_written.induct) simp_all

lemma failed_written_append: "failed_written (a @ b) = failed_written a @ failed_written b"
  by (induction a rule: failed_written.induct) simp_all

lemma topic_sends_append: "topic_sends (a @ b) = topic_sends a @ topic_sends b"
  by (induction a rule: topic_sends.induct) simp_all

lemma registry_reads_append: "registry_reads (a @ b) = registry_reads a @ registry_reads b"
  by (induction a rule: registry_reads.induct) simp_all

lemmas observers_append = alerts_written_append unregistered_written_append
  failed_written_append topic_sends_append registry_reads_append

text \<open>Address resolution talks to the object store only.\<close>

lemma getPublicUrl_calls:
  assumes "getPublicUrl env u = (r, t)"
  shows "alerts_written t = [] \<and> unregistered_written t = [] \<and> failed_written t = []
     \<and> topic_sends t = [] \<and> registry_reads t = []"
  using assms
  by (auto simp add: getPublicUrl_def Let_def split: if_splits sum.splits option.splits)

lemma resolveImageUrl_calls:
  assumes "resolveImageUrl env u = (r, t)"
  shows "alerts_written t = [] \<and> unregistered_written t = [] \<and> failed_written t = []
     \<and> topic_sends t = [] \<and> registry_reads t = []"
  using assms getPublicUrl_calls [of env u r t]
  by (auto simp add: resolveImageUrl_def split: if_splits)

lemma getPublicUrl_identity: "\<not> startsWith u ''gs://'' \<Longrightarrow> getPublicUrl env u = (Inr u, [])"
  by (simp add: getPublicUrl_def)

lemma getPublicUrl_result:
  assumes "getPublicUrl env u = (Inr v, t)"
  shows "\<not> startsWith v ''gs://'' \<and> (startsWith u ''gs://'' \<longrightarrow> startsWith v ''https://'')"
  using assms
  by (auto simp add: getPublicUrl_def Let_def startsWith_def
      split: if_splits sum.splits option.splits)

text \<open>The handler behind its guard, and the \<open>try\<close> block behind the resolution.\<close>

lemma handler_validated:
  assumes "imageUrl d = Some u" "u \<noteq> []" "PLATE_RECOGNIZER_KEY env = Some key" "key \<noteq> []"
  shows "alertBlockedCharger env (Some d) =
     (case try_block env d u key of
        (None, t) \<Rightarrow> (None, t)
      | (Some e, t) \<Rightarrow> (let (r, t') = catch_block env d u e in (r, t @ t')))"
  using assms by (simp add: alertBlockedCharger_def)

lemma try_block_resolved:
  assumes "resolveImageUrl env u = (Inr url, t1)"
  shows "try_block env d u key = (let (r, t) = detect_plate env d u key url in (r, t1 @ t))"
  using assms by (simp add: try_block_def)

lemma try_block_unresolved:
  assumes "resolveImageUrl env u = (Inl e, t1)"
  shows "try_block env d u key = (Some e, t1)"
  using assms by (simp add: try_block_def)

lemma scenario_report_imageUrl: "imageUrl scenario_report = Some ''gs://bucket/x.jpg''"
  by (simp add: scenario_report_def)

lemma full_report_imageUrl: "imageUrl full_report = Some ''gs://bucket/x.jpg''"
  by (simp add: full_report_def)

lemma catch_block_eq:
  "catch_block env d u e =
     (add_failedDetection env (build_failed d u e),
      [(AddFailed (build_failed d u e), add_failedDetection env (build_failed d u e) = None)])"
  by (simp add: catch_block_def Let_def)

text \<open>The order check holds of every run, block by block, and it means what it says.\<close>

lemma alert_follows_send_failed:
  "alert_follows_send sent (t @ [(AddFailed r, b)]) = alert_follows_send sent t"
  by (induction sent t rule: alert_follows_send.induct) (simp_all add: topic_sends_append)

lemma alert_follows_send_resolve:
  assumes "resolveImageUrl env u = (r, t1)"
  shows "alert_follows_send sent (t1 @ t) = alert_follows_send sent t"
  using assms
  by (auto simp add: resolveImageUrl_def getPublicUrl_def Let_def
      split: if_splits sum.splits option.splits)

lemma alert_follows_send_send_and_log:
  "alert_follows_send [] (snd (send_and_log env d u url p c ownerId))"
  by (simp add: send_and_log_def Let_def build_alert_def split: option.splits)

lemma alert_follows_send_lookup_owner:
  "alert_follows_send [] (snd (lookup_owner env d u url p c))"
  using alert_follows_send_send_and_log
  by (simp add: lookup_owner_def Let_def split_beta split: option.splits list.splits)

lemma alert_follows_send_detect_plate:
  "alert_follows_send [] (snd (detect_plate env d u key url))"
  using alert_follows_send_lookup_owner
  by (simp add: detect_plate_def Let_def split_beta split: sum.splits list.splits)

lemma alert_follows_send_try_block:
  "alert_follows_send [] (snd (try_block env d u key))"
proof (cases "resolveImageUrl env u")
  case (Pair r t1)
  have "alert_follows_send [] t1"
    using alert_follows_send_resolve [OF Pair, of "[]" "[]"] by simp
  with Pair show ?thesis
    using alert_follows_send_detect_plate [of env d u key]
      alert_follows_send_resolve [OF Pair, of "[]"]
    by (cases r) (simp_all add: try_block_def split_beta)
qed

lemma alert_follows_send_handler:
  "alert_follows_send [] (snd (alertBlockedCharger env event))"
proof -
  have "alert_follows_send []
      (snd (case try_block env d u key of
              (None, t) \<Rightarrow> (None, t)
            | (Some e, t) \<Rightarrow> (let (r, t') = catch_block env d u e in (r, t @ t'))))"
    for d u key
    using alert_follows_send_try_block [of env d u key]
    by (cases "try_block env d u key")
      (auto simp add: catch_block_eq alert_follows_send_failed split: option.splits)
  then show ?thesis
    by (simp add: alertBlockedCharger_def split: option.splits)
qed

lemma alert_follows_send_sound:
  assumes "alert_follows_send sent t" "t = pre @ (AddAlert r, ok) # post"
  shows "map snd (sent @ topic_sends pre) = [True] \<and> topic_sends post = [] \<and> status r = ''sent''"
  using assms
proof (induction pre arbitrary: sent t)
  case Nil
  then show ?case by simp
next
  case (Cons x pre)
  obtain c b where x: "x = (c, b)" by (cases x)
  from Cons.prems have t: "t = (c, b) # (pre @ (AddAlert r, ok) # post)"
    by (simp add: x)
  show ?case
  proof (cases c)
    case (MessagingSend m)
    with Cons.prems(1) t have "alert_follows_send (sent @ [(m, b)]) (pre @ (AddAlert r, ok) # post)"
      by simp
    from Cons.IH [OF this refl] show ?thesis
      by (simp add: x MessagingSend)
  next
    case (AddAlert r')
    with Cons.prems(1) t have "alert_follows_send sent (pre @ (AddAlert r, ok) # post)"
      by simp
    from Cons.IH [OF this refl] show ?thesis
      by (simp add: x AddAlert)
  qed (use Cons.prems(1) t Cons.IH [of sent "pre @ (AddAlert r, ok) # post"] x in simp_all)
qed

section \<open>The claims\<close>

text \<open>
  C8. Plate normalisation is idempotent, and it is insensitive to case and to
  whitespace: \<open>"ab 12 cde"\<close> and \<open>"AB12CDE"\<close> normalise to the same plate. Both hold
  of the client's \<open>normalizePlate\<close> and of the normalisation the handler applies to
  the recogniser's first candidate.
\<close>

theorem normalizePlate_idempotent:
  "normalizePlate (Some (normalizePlate p)) = normalizePlate p
   \<and> normalizePlate (Some ''ab 12 cde'') = normalizePlate (Some ''AB12CDE'')
   \<and> detectedPlate_of (detectedPlate_of s) = detectedPlate_of s
   \<and> detectedPlate_of ''ab 12 cde'' = detectedPlate_of ''AB12CDE''"
proof -
  have idem: "normalizePlate (Some (normalizePlate p)) = normalizePlate p"
    by (simp add: normalizePlate_filter js_or_empty toUpperCase_filter_fixed)
  have client: "normalizePlate (Some ''ab 12 cde'') = normalizePlate (Some ''AB12CDE'')"
    by code_simp
  have handler: "detectedPlate_of ''ab 12 cde'' = detectedPlate_of ''AB12CDE''"
    by code_simp
  from idem client handler show ?thesis
    by (simp add: detectedPlate_of_idem)
qed

text \<open>
  C9. An address that does not start with \<open>gs://\<close> is returned unchanged, with no call
  to the object store. Hence resolution is idempotent: whatever address \<open>getPublicUrl\<close>
  returns (an \<open>https://\<close> address when the input started with \<open>gs://\<close>), resolving it
  again, against any state of the store, returns it unchanged.
\<close>

theorem getPublicUrl_idempotent:
  "(\<not> startsWith a ''gs://'' \<longrightarrow> getPublicUrl env a = (Inr a, []))
   \<and> (getPublicUrl env u = (Inr v, t) \<longrightarrow>
        (startsWith u ''gs://'' \<longrightarrow> startsWith v ''https://'')
      \<and> getPublicUrl env' v = (Inr v, []))"
  using getPublicUrl_result [of env u v t] getPublicUrl_identity [of v env']
    getPublicUrl_identity [of a env]
  by blast

theorem getPublicUrl_idempotent_witness:
  "\<not> startsWith ''https://example.com/x.jpg'' ''gs://''
   \<and> getPublicUrl scenario_env ''https://example.com/x.jpg'' = (Inr ''https://example.com/x.jpg'', [])
   \<and> getPublicUrl scenario_env ''gs://bucket/x.jpg'' =
        (Inr ''https://storage.googleapis.com/bucket/x.jpg'',
         [(FileExists ''bucket'' ''x.jpg'', True), (MakePublic ''bucket'' ''x.jpg'', True)])
   \<and> startsWith ''gs://bucket/x.jpg'' ''gs://''
   \<and> startsWith ''https://storage.googleapis.com/bucket/x.jpg'' ''https://''
   \<and> getPublicUrl scenario_env ''https://storage.googleapis.com/bucket/x.jpg'' =
        (Inr ''https://storage.googleapis.com/bucket/x.jpg'', [])"
proof -
  have h1: "\<not> startsWith ''https://example.com/x.jpg'' ''gs://''"
    by code_simp
  have h2: "getPublicUrl scenario_env ''gs://bucket/x.jpg'' =
        (Inr ''https://storage.googleapis.com/bucket/x.jpg'',
         [(FileExists ''bucket'' ''x.jpg'', True), (MakePublic ''bucket'' ''x.jpg'', True)])"
    by code_simp
  have h3: "startsWith ''gs://bucket/x.jpg'' ''gs://''"
    by code_simp
  from h1 h2 h3
    getPublicUrl_idempotent [of "''https://example.com/x.jpg''" scenario_env
      "''gs://bucket/x.jpg''" "''https://storage.googleapis.com/bucket/x.jpg''"
      "[(FileExists ''bucket'' ''x.jpg'', True), (MakePublic ''bucket'' ''x.jpg'', True)]"
      scenario_env]
  show ?thesis by blast
qed

text \<open>
  C7. When the event has no payload, or the payload's \<open>imageUrl\<close> is missing (or
  empty), or the credential \<open>PLATE_RECOGNIZER_KEY\<close> is missing (or empty), the handler
  returns without an error and without a single call: nothing is read, sent or written.
\<close>

theorem guard_aborts_silently:
  "alertBlockedCharger env None = (None, [])
   \<and> (falsy (imageUrl d) \<longrightarrow> alertBlockedCharger env (Some d) = (None, []))
   \<and> (falsy (PLATE_RECOGNIZER_KEY env) \<longrightarrow> alertBlockedCharger env event = (None, []))"
  by (auto simp add: alertBlockedCharger_def falsy_def split: option.splits)

theorem guard_aborts_silently_witness:
  "alertBlockedCharger scenario_env None = (None, [])
   \<and> falsy (imageUrl (scenario_report\<lparr>imageUrl := None\<rparr>))
   \<and> alertBlockedCharger scenario_env (Some (scenario_report\<lparr>imageUrl := None\<rparr>)) = (None, [])
   \<and> falsy (PLATE_RECOGNIZER_KEY (scenario_env\<lparr>PLATE_RECOGNIZER_KEY := None\<rparr>))
   \<and> alertBlockedCharger (scenario_env\<lparr>PLATE_RECOGNIZER_KEY := None\<rparr>) (Some scenario_report)
       = (None, [])"
proof -
  have h1: "falsy (imageUrl (scenario_report\<lparr>imageUrl := None\<rparr>))"
    by (simp add: falsy_def)
  have h2: "falsy (PLATE_RECOGNIZER_KEY (scenario_env\<lparr>PLATE_RECOGNIZER_KEY := None\<rparr>))"
    by (simp add: falsy_def)
  from h1 h2
    guard_aborts_silently [of scenario_env "scenario_report\<lparr>imageUrl := None\<rparr>"
      "Some scenario_report"]
    guard_aborts_silently [of "scenario_env\<lparr>PLATE_RECOGNIZER_KEY := None\<rparr>" scenario_report
      "Some scenario_report"]
  show ?thesis by blast
qed

text \<open>
  C6. When the guard is passed, the address is resolved and the recogniser returns an
  empty result list (or none), the handler returns without an error; the recogniser call
  is the last call of the run, so there is no registry read and no topic send, and no
  document is written to \<open>alerts\<close>, \<open>unregisteredPlates\<close> or \<open>failedDetections\<close>.
\<close>

theorem no_plate_writes_nothing:
  assumes "imageUrl d = Some u" "u \<noteq> []" "PLATE_RECOGNIZER_KEY env = Some key" "key \<noteq> []"
    and "resolveImageUrl env u = (Inr url, t1)"
    and "axios_post env url key = Inr results" "results_of results = []"
  shows "alertBlockedCharger env (Some d) = (None, t1 @ [(PlateReader url key, True)])
    \<and> alerts_written (snd (alertBlockedCharger env (Some d))) = []
    \<and> unregistered_written (snd (alertBlockedCharger env (Some d))) = []
    \<and> failed_written (snd (alertBlockedCharger env (Some d))) = []
    \<and> registry_reads (snd (alertBlockedCharger env (Some d))) = []
    \<and> topic_sends (snd (alertBlockedCharger env (Some d))) = []"
proof -
  have run: "alertBlockedCharger env (Some d) = (None, t1 @ [(PlateReader url key, True)])"
    using assms
    by (simp add: handler_validated [of d u env key] try_block_resolved [of env u url t1]
        detect_plate_def)
  with resolveImageUrl_calls [OF assms(5)] show ?thesis
    by (simp add: observers_append)
qed

theorem no_plate_writes_nothing_witness:
  "alertBlockedCharger no_plate_env (Some scenario_report) =
     (None, [(FileExists ''bucket'' ''x.jpg'', True), (MakePublic ''bucket'' ''x.jpg'', True),
             (PlateReader ''https://storage.googleapis.com/bucket/x.jpg'' ''key'', True)])
   \<and> alerts_written (snd (alertBlockedCharger no_plate_env (Some scenario_report))) = []
   \<and> unregistered_written (snd (alertBlockedCharger no_plate_env (Some scenario_report))) = []
   \<and> failed_written (snd (alertBlockedCharger no_plate_env (Some scenario_report))) = []
   \<and> registry_reads (snd (alertBlockedCharger no_plate_env (Some scenario_report))) = []
   \<and> topic_sends (snd (alertBlockedCharger no_plate_env (Some scenario_report))) = []"
proof -
  have h3: "PLATE_RECOGNIZER_KEY no_plate_env = Some ''key''"
    by (simp add: no_plate_env_def scenario_env_def)
  have h5: "resolveImageUrl no_plate_env ''gs://bucket/x.jpg'' =
     (Inr ''https://storage.googleapis.com/bucket/x.jpg'',
      [(FileExists ''bucket'' ''x.jpg'', True), (MakePublic ''bucket'' ''x.jpg'', True)])"
    by code_simp
  have h6: "axios_post no_plate_env ''https://storage.googleapis.com/bucket/x.jpg'' ''key''
      = Inr (Some [])"
    by (simp add: no_plate_env_def)
  have h7: "results_of (Some []) = []"
    by (simp add: results_of_def)
  from no_plate_writes_nothing [OF scenario_report_imageUrl _ h3 _ h5 h6 h7] show ?thesis
    by simp
qed

text \<open>
  C4 (what the handler does). On the scenario's report, which has no \<open>location\<close> and
  no \<open>reportedBy\<close>, and an empty registry, the handler makes no topic send and calls
  \<open>unregisteredPlates.add\<close> once, with those two fields undefined. The client refuses the
  document; the \<open>catch\<close> block then calls \<open>failedDetections.add\<close> with \<open>location\<close>
  undefined, which is refused as well. No document is written to any store, and the
  handler rejects with the client's error.
\<close>

theorem unregistered_plate_not_logged:
  "alertBlockedCharger empty_registry_env (Some scenario_report) =
     (Some (undefined_field_error empty_registry_env ''location''),
      [(FileExists ''bucket'' ''x.jpg'', True), (MakePublic ''bucket'' ''x.jpg'', True),
       (PlateReader ''https://storage.googleapis.com/bucket/x.jpg'' ''key'', True),
       (UserPlatesQuery ''AB12CDE'', True),
       (AddUnregistered
          \<lparr>unreg_plate = ''AB12CDE'', unreg_imageUrl = ''gs://bucket/x.jpg'',
           unreg_location = None, unreg_chargerId = Some ''C1'',
           unreg_reportedBy = None, unreg_confidence = 91 / 100\<rparr>, False),
       (AddFailed
          \<lparr>failed_imageUrl = ''gs://bucket/x.jpg'', failed_chargerId = Some ''C1'',
           failed_location = None,
           error = message (undefined_field_error empty_registry_env ''location''),
           errorDetails = None\<rparr>, False)])
   \<and> unregistered_written (snd (alertBlockedCharger empty_registry_env (Some scenario_report))) = []
   \<and> failed_written (snd (alertBlockedCharger empty_registry_env (Some scenario_report))) = []
   \<and> topic_sends (snd (alertBlockedCharger empty_registry_env (Some scenario_report))) = []"
  by code_simp

text \<open>For a report that carries all three fields, and a store that accepts the document,
  the branch does what is expected of it: one document in \<open>unregisteredPlates\<close>, no
  send, nothing else written, no error.\<close>

lemma unregistered_plate_logged_full_report:
  assumes "imageUrl d = Some u" "u \<noteq> []" "PLATE_RECOGNIZER_KEY env = Some key" "key \<noteq> []"
    and "resolveImageUrl env u = (Inr url, t1)"
    and "axios_post env url key = Inr results" "results_of results = r0 # rs"
    and "userPlates_get_error env = None"
    and "\<forall>doc \<in> set (userPlates env). owner_plate doc \<noteq> detectedPlate_of (plate r0)"
    and "location d \<noteq> None" "chargerId d \<noteq> None" "reportedBy d \<noteq> None"
    and "unregisteredPlates_add env
           \<lparr>unreg_plate = detectedPlate_of (plate r0), unreg_imageUrl = u,
            unreg_location = location d, unreg_chargerId = chargerId d,
            unreg_reportedBy = reportedBy d, unreg_confidence = score r0\<rparr> = None"
  shows "fst (alertBlockedCharger env (Some d)) = None
    \<and> unregistered_written (snd (alertBlockedCharger env (Some d))) =
        [\<lparr>unreg_plate = detectedPlate_of (plate r0), unreg_imageUrl = u,
          unreg_location = location d, unreg_chargerId = chargerId d,
          unreg_reportedBy = reportedBy d, unreg_confidence = score r0\<rparr>]
    \<and> topic_sends (snd (alertBlockedCharger env (Some d))) = []
    \<and> alerts_written (snd (alertBlockedCharger env (Some d))) = []
    \<and> failed_written (snd (alertBlockedCharger env (Some d))) = []"
proof -
  let ?rec = "build_unregistered d u (detectedPlate_of (plate r0)) (score r0)"
  have nomatch:
    "filter (\<lambda>doc. owner_plate doc = detectedPlate_of (plate r0)) (userPlates env) = []"
    using assms(9) by (simp add: filter_empty_conv)
  have acc: "add_unregisteredPlate env ?rec = None"
    using assms(10-13) by (simp add: build_unregistered_def add_unregisteredPlate_def)
  have look: "lookup_owner env d u url (detectedPlate_of (plate r0)) (score r0)
      = (None, [(UserPlatesQuery (detectedPlate_of (plate r0)), True),
                (AddUnregistered ?rec, True)])"
    using assms(8) nomatch acc by (simp add: lookup_owner_def Let_def)
  have run: "alertBlockedCharger env (Some d) =
      (None, t1 @ [(PlateReader url key, True),
                   (UserPlatesQuery (detectedPlate_of (plate r0)), True),
                   (AddUnregistered ?rec, True)])"
    using assms(1-7) look
    by (simp add: handler_validated [of d u env key] try_block_resolved [of env u url t1]
        detect_plate_def)
  with resolveImageUrl_calls [OF assms(5)] show ?thesis
    by (simp add: observers_append build_unregistered_def)
qed

text \<open>
  C5 (what the handler does). On the scenario's report, which has no \<open>location\<close>, with
  a recogniser that times out, the handler makes no registry read and no topic send and
  calls \<open>failedDetections.add\<close> once, with the original image address, the timeout's
  message and \<open>location\<close> undefined. The client refuses the document: nothing is
  written, and the handler rejects with the client's error.
\<close>

theorem detection_failure_not_logged:
  "alertBlockedCharger timeout_env (Some scenario_report) =
     (Some (undefined_field_error timeout_env ''location''),
      [(FileExists ''bucket'' ''x.jpg'', True), (MakePublic ''bucket'' ''x.jpg'', True),
       (PlateReader ''https://storage.googleapis.com/bucket/x.jpg'' ''key'', False),
       (AddFailed
          \<lparr>failed_imageUrl = ''gs://bucket/x.jpg'', failed_chargerId = Some ''C1'',
           failed_location = None, error = ''timeout of 30000ms exceeded'',
           errorDetails = None\<rparr>, False)])
   \<and> failed_written (snd (alertBlockedCharger timeout_env (Some scenario_report))) = []
   \<and> registry_reads (snd (alertBlockedCharger timeout_env (Some scenario_report))) = []
   \<and> topic_sends (snd (alertBlockedCharger timeout_env (Some scenario_report))) = []"
  by code_simp

text \<open>For a report that carries \<open>chargerId\<close> and \<open>location\<close>, and a store that accepts
  the document, a failed resolution or a failed recogniser call ends as expected: one
  document in \<open>failedDetections\<close> with the original image address, the error's message
  and the body of its response, no registry read, no send, no error.\<close>

lemma detection_failure_logged_full_report:
  assumes "imageUrl d = Some u" "u \<noteq> []" "PLATE_RECOGNIZER_KEY env = Some key" "key \<noteq> []"
    and "resolveImageUrl env u = (Inl e, t1)
         \<or> (resolveImageUrl env u = (Inr url, t1) \<and> axios_post env url key = Inl e)"
    and "chargerId d \<noteq> None" "location d \<noteq> None"
    and "failedDetections_add env
           \<lparr>failed_imageUrl = u, failed_chargerId = chargerId d, failed_location = location d,
            error = message e,
            errorDetails = (case response e of None \<Rightarrow> None
                            | Some r \<Rightarrow> if falsy (response_data r) then None else response_data r)\<rparr>
         = None"
  shows "fst (alertBlockedCharger env (Some d)) = None
    \<and> failed_written (snd (alertBlockedCharger env (Some d))) =
        [\<lparr>failed_imageUrl = u, failed_chargerId = chargerId d, failed_location = location d,
          error = message e,
          errorDetails = (case response e of None \<Rightarrow> None
                          | Some r \<Rightarrow> if falsy (response_data r) then None else response_data r)\<rparr>]
    \<and> topic_sends (snd (alertBlockedCharger env (Some d))) = []
    \<and> registry_reads (snd (alertBlockedCharger env (Some d))) = []
    \<and> alerts_written (snd (alertBlockedCharger env (Some d))) = []
    \<and> unregistered_written (snd (alertBlockedCharger env (Some d))) = []"
proof -
  let ?rec = "build_failed d u e"
  have acc: "add_failedDetection env ?rec = None"
    using assms(6-8) by (simp add: build_failed_def add_failedDetection_def)
  from assms(5) obtain t where
    tried: "try_block env d u key = (Some e, t)" and
    quiet: "topic_sends t = [] \<and> registry_reads t = [] \<and> alerts_written t = []
      \<and> unregistered_written t = [] \<and> failed_written t = []"
  proof
    assume r: "resolveImageUrl env u = (Inl e, t1)"
    show thesis
      using that [of t1] r resolveImageUrl_calls [OF r]
      by (simp add: try_block_unresolved)
  next
    assume r: "resolveImageUrl env u = (Inr url, t1) \<and> axios_post env url key = Inl e"
    then have res: "resolveImageUrl env u = (Inr url, t1)" by simp
    show thesis
      using that [of "t1 @ [(PlateReader url key, False)]"] r resolveImageUrl_calls [OF res]
      by (simp add: try_block_resolved [OF res] detect_plate_def observers_append)
  qed
  have run: "alertBlockedCharger env (Some d) = (None, t @ [(AddFailed ?rec, True)])"
    using assms(1-4) tried acc
    by (simp add: handler_validated [of d u env key] catch_block_eq)
  with quiet show ?thesis
    by (simp add: observers_append build_failed_def)
qed

text \<open>
  C1 (as the handler has it). When detection succeeds, an owner is found and the topic
  send throws, no document is added to \<open>alerts\<close>: the send is the last call of the
  \<open>try\<close> block, the error goes to the handler's one \<open>catch\<close> block, and that calls
  \<open>failedDetections.add\<close> once, with the error's message. The run ends without an
  error exactly when that call returns.
\<close>

theorem send_failure_logged_as_failed_detection:
  assumes "imageUrl d = Some u" "u \<noteq> []" "PLATE_RECOGNIZER_KEY env = Some key" "key \<noteq> []"
    and "resolveImageUrl env u = (Inr url, t1)"
    and "axios_post env url key = Inr results" "results_of results = r0 # rs"
    and "userPlates_get_error env = None"
    and "filter (\<lambda>doc. owner_plate doc = detectedPlate_of (plate r0)) (userPlates env)
           = ownerData # others"
    and "messaging_send env
           (build_message env d (detectedPlate_of (plate r0)) (score r0) (userId ownerData))
         = Some e"
  shows "alerts_written (snd (alertBlockedCharger env (Some d))) = []
    \<and> snd (alertBlockedCharger env (Some d)) =
        t1 @ [(PlateReader url key, True),
              (UserPlatesQuery (detectedPlate_of (plate r0)), True),
              (MessagingSend
                 (build_message env d (detectedPlate_of (plate r0)) (score r0) (userId ownerData)),
               False),
              (AddFailed (build_failed d u e), add_failedDetection env (build_failed d u e) = None)]
    \<and> error (build_failed d u e) = message e
    \<and> fst (alertBlockedCharger env (Some d)) = add_failedDetection env (build_failed d u e)"
proof -
  let ?p = "detectedPlate_of (plate r0)"
  let ?msg = "build_message env d ?p (score r0) (userId ownerData)"
  have look: "lookup_owner env d u url ?p (score r0)
      = (Some e, [(UserPlatesQuery ?p, True), (MessagingSend ?msg, False)])"
    using assms(8-10) by (simp add: lookup_owner_def send_and_log_def Let_def)
  have tried: "try_block env d u key =
      (Some e, t1 @ [(PlateReader url key, True), (UserPlatesQuery ?p, True),
                     (MessagingSend ?msg, False)])"
    using assms(6,7) look
    by (simp add: try_block_resolved [OF assms(5)] detect_plate_def)
  have run: "alertBlockedCharger env (Some d) =
      (add_failedDetection env (build_failed d u e),
       t1 @ [(PlateReader url key, True), (UserPlatesQuery ?p, True),
             (MessagingSend ?msg, False),
             (AddFailed (build_failed d u e), add_failedDetection env (build_failed d u e) = None)])"
    using assms(1-4) tried
    by (simp add: handler_validated [of d u env key] catch_block_eq)
  with resolveImageUrl_calls [OF assms(5)] show ?thesis
    by (simp add: observers_append build_failed_def)
qed

theorem send_failure_logged_as_failed_detection_witness:
  "alerts_written (snd (alertBlockedCharger send_fails_env (Some full_report))) = []
   \<and> map fst (snd (alertBlockedCharger send_fails_env (Some full_report))) =
       [FileExists ''bucket'' ''x.jpg'', MakePublic ''bucket'' ''x.jpg'',
        PlateReader ''https://storage.googleapis.com/bucket/x.jpg'' ''key'',
        UserPlatesQuery ''AB12CDE'',
        MessagingSend (build_message send_fails_env full_report ''AB12CDE'' (91 / 100) ''U1''),
        AddFailed (build_failed full_report ''gs://bucket/x.jpg'' send_error)]
   \<and> error (build_failed full_report ''gs://bucket/x.jpg'' send_error)
       = ''messaging/internal-error''
   \<and> fst (alertBlockedCharger send_fails_env (Some full_report)) = None"
proof -
  let ?r0 = "\<lparr>plate = ''ab12 cde'', score = 91 / 100\<rparr>"
  let ?owner = "\<lparr>owner_plate = ''AB12CDE'', userId = ''U1''\<rparr>"
  have plate: "detectedPlate_of ''ab12 cde'' = ''AB12CDE''"
    by code_simp
  have h3: "PLATE_RECOGNIZER_KEY send_fails_env = Some ''key''"
    by (simp add: send_fails_env_def scenario_env_def)
  have h5: "resolveImageUrl send_fails_env ''gs://bucket/x.jpg'' =
     (Inr ''https://storage.googleapis.com/bucket/x.jpg'',
      [(FileExists ''bucket'' ''x.jpg'', True), (MakePublic ''bucket'' ''x.jpg'', True)])"
    by code_simp
  have h6: "axios_post send_fails_env ''https://storage.googleapis.com/bucket/x.jpg'' ''key''
      = Inr (Some [?r0])"
    by (simp add: send_fails_env_def scenario_env_def)
  have h7: "results_of (Some [?r0]) = ?r0 # []"
    by (simp add: results_of_def)
  have h8: "userPlates_get_error send_fails_env = None"
    by (simp add: send_fails_env_def scenario_env_def)
  have h9: "filter (\<lambda>doc. owner_plate doc = detectedPlate_of (plate ?r0))
      (userPlates send_fails_env) = ?owner # []"
    using plate by (simp add: send_fails_env_def scenario_env_def)
  have h10: "messaging_send send_fails_env msg = Some send_error" for msg
    by (simp add: send_fails_env_def)
  have w: "add_failedDetection send_fails_env (build_failed full_report ''gs://bucket/x.jpg'' send_error)
      = None"
    by (simp add: add_failedDetection_def build_failed_def full_report_def send_fails_env_def
        scenario_env_def)
  from send_failure_logged_as_failed_detection
    [OF full_report_imageUrl _ h3 _ h5 h6 h7 h8 h9 h10] plate w
  show ?thesis
    by (simp add: send_error_def build_failed_def)
qed

text \<open>
  C1 as it is stated fails on a report that carries every field, when the push service
  rejects the message: the send is made and throws, \<open>alerts\<close> gets no document, and the
  run ends in \<open>failedDetections\<close>.
\<close>

theorem send_failure_drops_alert_counterexample:
  "map snd (topic_sends (snd (alertBlockedCharger send_fails_env (Some full_report)))) = [False]
   \<and> alerts_written (snd (alertBlockedCharger send_fails_env (Some full_report))) = []
   \<and> failed_written (snd (alertBlockedCharger send_fails_env (Some full_report))) =
       [\<lparr>failed_imageUrl = ''gs://bucket/x.jpg'', failed_chargerId = Some ''C1'',
         failed_location = Some ''Bay 4'', error = ''messaging/internal-error'',
         errorDetails = None\<rparr>]"
  by code_simp

text \<open>
  C2. On the report \<open>{ imageUrl: "gs://bucket/x.jpg", chargerId: "C1" }\<close>, with the
  object in the store, the recogniser returning the one candidate
  \<open>{ plate: "ab12 cde", score: 0.91 }\<close>, the registry holding
  \<open>{ plate: "AB12CDE", userId: "U1" }\<close> and no other owner of that plate, and the push
  service and the \<open>alerts\<close> store accepting what they are given, the run writes exactly
  one document to \<open>alerts\<close>, with \<open>recipientId\<close> \<open>U1\<close> and \<open>plate\<close> \<open>AB12CDE\<close>,
  makes exactly one topic send, whose data has \<open>ownerId\<close> \<open>U1\<close>, writes nothing else
  and ends without an error.
\<close>

theorem scenario_owner_notified:
  assumes "PLATE_RECOGNIZER_KEY env = Some key" "key \<noteq> []"
    and "file_exists env ''bucket'' ''x.jpg'' = Inr True"
    and "file_makePublic env ''bucket'' ''x.jpg'' = None"
    and "axios_post env ''https://storage.googleapis.com/bucket/x.jpg'' key
           = Inr (Some [\<lparr>plate = ''ab12 cde'', score = 91 / 100\<rparr>])"
    and "userPlates_get_error env = None"
    and "\<lparr>owner_plate = ''AB12CDE'', userId = ''U1''\<rparr> \<in> set (userPlates env)"
    and "\<forall>doc \<in> set (userPlates env). owner_plate doc = ''AB12CDE'' \<longrightarrow> userId doc = ''U1''"
    and "\<forall>msg. messaging_send env msg = None"
    and "\<forall>doc. alerts_add env doc = None"
  shows "\<exists>doc msg.
      alerts_written (snd (alertBlockedCharger env (Some scenario_report))) = [doc]
    \<and> recipientId doc = ''U1'' \<and> alert_plate doc = ''AB12CDE''
    \<and> topic_sends (snd (alertBlockedCharger env (Some scenario_report))) = [(msg, True)]
    \<and> data_ownerId msg = ''U1''
    \<and> unregistered_written (snd (alertBlockedCharger env (Some scenario_report))) = []
    \<and> failed_written (snd (alertBlockedCharger env (Some scenario_report))) = []
    \<and> fst (alertBlockedCharger env (Some scenario_report)) = None"
proof -
  let ?u = "''gs://bucket/x.jpg''"
  let ?url = "''https://storage.googleapis.com/bucket/x.jpg''"
  let ?t1 = "[(FileExists ''bucket'' ''x.jpg'', True), (MakePublic ''bucket'' ''x.jpg'', True)]"
  have parts: "startsWith ?u ''gs://''" "replace_first ''gs://'' [] ?u = ''bucket/x.jpg''"
    "indexOf ''bucket/x.jpg'' CHR ''/'' = 6"
    "substring ''bucket/x.jpg'' 0 6 = ''bucket''"
    "substring_from ''bucket/x.jpg'' (6 + 1) = ''x.jpg''"
    "encodeURIComponent ''x.jpg'' = ''x.jpg''"
    "detectedPlate_of ''ab12 cde'' = ''AB12CDE''"
    by code_simp+
  have res: "resolveImageUrl env ?u = (Inr ?url, ?t1)"
    using assms(3,4) parts by (simp add: resolveImageUrl_def getPublicUrl_def Let_def)
  from assms(7) obtain ownerData others where
    found: "filter (\<lambda>doc. owner_plate doc = ''AB12CDE'') (userPlates env) = ownerData # others"
    by (cases "filter (\<lambda>doc. owner_plate doc = ''AB12CDE'') (userPlates env)")
      (auto simp add: filter_empty_conv)
  then have "ownerData \<in> set (filter (\<lambda>doc. owner_plate doc = ''AB12CDE'') (userPlates env))"
    by simp
  with assms(8) have owner: "userId ownerData = ''U1''"
    by simp
  let ?msg = "build_message env scenario_report ''AB12CDE'' (91 / 100) ''U1''"
  let ?doc = "build_alert scenario_report ?u ?url ''AB12CDE'' (91 / 100) ''U1''"
  have look: "lookup_owner env scenario_report ?u ?url ''AB12CDE'' (91 / 100)
      = (None, [(UserPlatesQuery ''AB12CDE'', True), (MessagingSend ?msg, True),
                (AddAlert ?doc, True)])"
    using assms(6,9,10) found owner by (simp add: lookup_owner_def send_and_log_def Let_def)
  have run: "alertBlockedCharger env (Some scenario_report) =
      (None, ?t1 @ [(PlateReader ?url key, True), (UserPlatesQuery ''AB12CDE'', True),
                    (MessagingSend ?msg, True), (AddAlert ?doc, True)])"
    using assms(1,2,5) look parts(7)
    by (simp add: handler_validated [OF scenario_report_imageUrl _ assms(1,2)]
        try_block_resolved [OF res] detect_plate_def results_of_def)
  have "alerts_written (snd (alertBlockedCharger env (Some scenario_report))) = [?doc]
    \<and> recipientId ?doc = ''U1'' \<and> alert_plate ?doc = ''AB12CDE''
    \<and> topic_sends (snd (alertBlockedCharger env (Some scenario_report))) = [(?msg, True)]
    \<and> data_ownerId ?msg = ''U1''
    \<and> unregistered_written (snd (alertBlockedCharger env (Some scenario_report))) = []
    \<and> failed_written (snd (alertBlockedCharger env (Some scenario_report))) = []
    \<and> fst (alertBlockedCharger env (Some scenario_report)) = None"
    using run by (simp add: build_alert_def build_message_def)
  then show ?thesis by blast
qed

theorem scenario_owner_notified_witness:
  "\<exists>doc msg.
      alerts_written (snd (alertBlockedCharger scenario_env (Some scenario_report))) = [doc]
    \<and> recipientId doc = ''U1'' \<and> alert_plate doc = ''AB12CDE''
    \<and> topic_sends (snd (alertBlockedCharger scenario_env (Some scenario_report))) = [(msg, True)]
    \<and> data_ownerId msg = ''U1''
    \<and> unregistered_written (snd (alertBlockedCharger scenario_env (Some scenario_report))) = []
    \<and> failed_written (snd (alertBlockedCharger scenario_env (Some scenario_report))) = []
    \<and> fst (alertBlockedCharger scenario_env (Some scenario_report)) = None"
proof -
  have h1: "PLATE_RECOGNIZER_KEY scenario_env = Some ''key''"
    by (simp add: scenario_env_def)
  have h2: "''key'' \<noteq> []"
    by simp
  have h3: "file_exists scenario_env ''bucket'' ''x.jpg'' = Inr True"
    by (simp add: scenario_env_def)
  have h4: "file_makePublic scenario_env ''bucket'' ''x.jpg'' = None"
    by (simp add: scenario_env_def)
  have h5: "axios_post scenario_env ''https://storage.googleapis.com/bucket/x.jpg'' ''key''
           = Inr (Some [\<lparr>plate = ''ab12 cde'', score = 91 / 100\<rparr>])"
    by (simp add: scenario_env_def)
  have h6: "userPlates_get_error scenario_env = None"
    by (simp add: scenario_env_def)
  have h7: "\<lparr>owner_plate = ''AB12CDE'', userId = ''U1''\<rparr> \<in> set (userPlates scenario_env)"
    by (simp add: scenario_env_def)
  have h8: "\<forall>doc \<in> set (userPlates scenario_env).
      owner_plate doc = ''AB12CDE'' \<longrightarrow> userId doc = ''U1''"
    by (simp add: scenario_env_def)
  have h9: "\<forall>msg. messaging_send scenario_env msg = None"
    by (simp add: scenario_env_def)
  have h10: "\<forall>doc. alerts_add scenario_env doc = None"
    by (simp add: scenario_env_def)
  from scenario_owner_notified [OF h1 h2 h3 h4 h5 h6 h7 h8 h9 h10] show ?thesis .
qed

text \<open>
  C3 (what the handler does). For a report that carries the image address only and a
  plate nobody registered, \<open>unregisteredPlates.add\<close> is called with the report's
  \<open>location\<close>, \<open>chargerId\<close> and \<open>reportedBy\<close> as they are, that is undefined, with no
  sentinel string in their place, and \<open>failedDetections.add\<close> after it with \<open>chargerId\<close>
  and \<open>location\<close> undefined; the client refuses both and the handler rejects. For the
  same report and a registered plate, the document written to \<open>alerts\<close> has the
  sentinels \<open>Unknown\<close>, \<open>unknown\<close> and \<open>anonymous\<close>.
\<close>

theorem unregistered_record_keeps_absent_fields:
  "alertBlockedCharger empty_registry_env (Some bare_report) =
     (Some (undefined_field_error empty_registry_env ''chargerId''),
      [(PlateReader ''https://example.com/x.jpg'' ''key'', True),
       (UserPlatesQuery ''AB12CDE'', True),
       (AddUnregistered
          \<lparr>unreg_plate = ''AB12CDE'', unreg_imageUrl = ''https://example.com/x.jpg'',
           unreg_location = None, unreg_chargerId = None, unreg_reportedBy = None,
           unreg_confidence = 91 / 100\<rparr>, False),
       (AddFailed
          \<lparr>failed_imageUrl = ''https://example.com/x.jpg'', failed_chargerId = None,
           failed_location = None,
           error = message (undefined_field_error empty_registry_env ''location''),
           errorDetails = None\<rparr>, False)])
   \<and> map (\<lambda>doc. (alert_location doc, alert_chargerId doc, alert_reportedBy doc))
       (alerts_written (snd (alertBlockedCharger scenario_env (Some bare_report))))
     = [(''Unknown'', ''unknown'', ''anonymous'')]"
  by code_simp

text \<open>
  C10. In every run, a call of \<open>alerts.add\<close> comes after exactly one topic send, which
  returned without throwing; no topic send follows it; and the document it is given has
  status \<open>sent\<close>.
\<close>

theorem alert_written_only_after_send:
  assumes "snd (alertBlockedCharger env event) = pre @ (AddAlert doc, ok) # post"
  shows "map snd (topic_sends pre) = [True] \<and> topic_sends post = [] \<and> status doc = ''sent''"
  using alert_follows_send_sound [OF alert_follows_send_handler assms]
  by simp

theorem alert_written_only_after_send_witness:
  "snd (alertBlockedCharger scenario_env (Some scenario_report)) =
     [(FileExists ''bucket'' ''x.jpg'', True), (MakePublic ''bucket'' ''x.jpg'', True),
      (PlateReader ''https://storage.googleapis.com/bucket/x.jpg'' ''key'', True),
      (UserPlatesQuery ''AB12CDE'', True),
      (MessagingSend (build_message scenario_env scenario_report ''AB12CDE'' (91 / 100) ''U1''),
       True)]
     @ (AddAlert (build_alert scenario_report ''gs://bucket/x.jpg''
          ''https://storage.googleapis.com/bucket/x.jpg'' ''AB12CDE'' (91 / 100) ''U1''), True) # []
   \<and> map snd (topic_sends
       [(FileExists ''bucket'' ''x.jpg'', True), (MakePublic ''bucket'' ''x.jpg'', True),
        (PlateReader ''https://storage.googleapis.com/bucket/x.jpg'' ''key'', True),
        (UserPlatesQuery ''AB12CDE'', True),
        (MessagingSend (build_message scenario_env scenario_report ''AB12CDE'' (91 / 100) ''U1''),
         True)]) = [True]
   \<and> topic_sends [] = []
   \<and> status (build_alert scenario_report ''gs://bucket/x.jpg''
          ''https://storage.googleapis.com/bucket/x.jpg'' ''AB12CDE'' (91 / 100) ''U1'') = ''sent''"
proof -
  have run: "snd (alertBlockedCharger scenario_env (Some scenario_report)) =
     [(FileExists ''bucket'' ''x.jpg'', True), (MakePublic ''bucket'' ''x.jpg'', True),
      (PlateReader ''https://storage.googleapis.com/bucket/x.jpg'' ''key'', True),
      (UserPlatesQuery ''AB12CDE'', True),
      (MessagingSend (build_message scenario_env scenario_report ''AB12CDE'' (91 / 100) ''U1''),
       True)]
     @ (AddAlert (build_alert scenario_report ''gs://bucket/x.jpg''
          ''https://storage.googleapis.com/bucket/x.jpg'' ''AB12CDE'' (91 / 100) ''U1''), True) # []"
    by code_simp
  from run alert_written_only_after_send [OF run] show ?thesis
    by blast
qed

end
